theory Spec2Isabelle
  imports
    Main
    "HOL-Library.Char_ord"
    "HOL-Library.List_Lexorder"
    "HOL-Library.AList"
begin

section \<open>Data model of \<^verbatim>\<open>mainloop.py\<close>\<close>

text \<open>
  The enums of lines 13--35. \<^verbatim>\<open>ToolType_value\<close> is the \<^verbatim>\<open>.value\<close> of a member.
\<close>

datatype ModelType = OPUS | SONNET | HAIKU

datatype ToolType =
  BASH | READ | WRITE | EDIT | GREP | GLOB | LS |
  TASK | WEB_FETCH | TODO_WRITE | TODO_READ | EXIT_PLAN_MODE

fun ToolType_value :: "ToolType \<Rightarrow> string" where
  "ToolType_value BASH = ''bash''"
| "ToolType_value READ = ''read''"
| "ToolType_value WRITE = ''write''"
| "ToolType_value EDIT = ''edit''"
| "ToolType_value GREP = ''grep''"
| "ToolType_value GLOB = ''glob''"
| "ToolType_value LS = ''ls''"
| "ToolType_value TASK = ''task''"
| "ToolType_value WEB_FETCH = ''web_fetch''"
| "ToolType_value TODO_WRITE = ''todo_write''"
| "ToolType_value TODO_READ = ''todo_read''"
| "ToolType_value EXIT_PLAN_MODE = ''exit_plan_mode''"

text \<open>
  The exceptions the modelled lines can raise. Nothing in the file catches any of them
  (the only \<^verbatim>\<open>except\<close> is the one of \<^verbatim>\<open>_load_claude_md\<close>), so each one ends the
  enclosing \<^verbatim>\<open>main_loop\<close> and every caller above it.
\<close>

datatype error = TypeError | AttributeError | KeyError | JSONDecodeError | FileNotFoundError

text \<open>
  Values stored in the dictionaries that tool executors return
  (\<^verbatim>\<open>{"summary": "File edited", "changes": []}\<close>): strings and lists.
\<close>

datatype PyVal = PyStr string | PyList "PyVal list"

type_synonym ToolResult = "(string \<times> PyVal) list"

text \<open>
  A tool call is a dictionary with the keys \<^verbatim>\<open>'tool'\<close> and \<^verbatim>\<open>'params'\<close>. The loop
  compares \<^verbatim>\<open>tool_call['tool']\<close> with the strings \<^verbatim>\<open>'Task'\<close> and \<^verbatim>\<open>'TodoWrite'\<close>
  (lines 148, 157), while \<^verbatim>\<open>_execute_tool\<close> and \<^verbatim>\<open>_get_user_permission\<close> treat it as
  a \<^verbatim>\<open>ToolType\<close> member; both kinds of value are kept apart here. An enum member is
  never equal to a string. Parameters are string-valued.
\<close>

datatype ToolName = ToolStr string | ToolEnum ToolType

record ToolCall =
  tool :: ToolName
  params :: "(string \<times> string) list"

text \<open>
  Lines 37--57. \<^verbatim>\<open>content\<close> is annotated \<^verbatim>\<open>str\<close>, but line 224 stores whatever
  \<^verbatim>\<open>_call_api\<close> returned, and line 181 shows that this may be \<^verbatim>\<open>None\<close>; hence the
  option. The field \<^verbatim>\<open>id\<close> of \<^verbatim>\<open>TodoItem\<close> is \<open>todo_id\<close> here.
\<close>

record Message =
  role :: string
  content :: "string option"
  tool_calls :: "ToolCall list option"
  tool_results :: "ToolResult list option"

record TodoItem =
  todo_id :: int
  description :: string
  completed :: bool

record Context =
  messages :: "Message list"
  todo_list :: "TodoItem list"
  current_directory :: string
  claude_md_content :: string
  recent_commits :: "string list"
  platform_info :: "(string \<times> string) list"

text \<open>
  The attributes set by \<^verbatim>\<open>ClaudeCodeAgent.__init__\<close> (lines 64--72). The attribute
  \<^verbatim>\<open>context\<close> is \<open>agent_context\<close> here.
\<close>

record Agent =
  api_key :: string
  project_path :: string
  agent_context :: Context
  current_model :: ModelType
  sub_agent_depth :: int
  MAX_SUB_AGENT_DEPTH :: int
  todos_path :: string
  is_ide_integrated :: bool

subsection \<open>The world outside the agent\<close>

text \<open>
  One object of a persisted snapshot, as \<^verbatim>\<open>json.load\<close> returns it: a dictionary in
  which either key may be absent.
\<close>

record RawItem =
  raw_description :: "string option"
  raw_completed :: "bool option"

text \<open>
  What the code reads and writes outside its own objects:
  \<^item> \<open>stdout\<close>: the lines printed so far;
  \<^item> \<open>todos_dir\<close>: the directory \<^verbatim>\<open>~/.claude/todos/\<close>, \<open>None\<close> when it does not exist,
    else its entries by name; the content of an entry is \<open>None\<close> when \<^verbatim>\<open>json.load\<close>
    rejects it and else the decoded array;
  \<^item> \<open>clock\<close>: \<^verbatim>\<open>datetime.now().strftime('%Y%m%d_%H%M%S')\<close> at this moment;
  \<^item> \<open>environ\<close>: the names defined in \<^verbatim>\<open>os.environ\<close>;
  \<^item> \<open>text_files\<close>: the readable text files, by path;
  \<^item> \<open>platform_system\<close>, \<open>platform_platform\<close>, \<open>platform_python_version\<close>: the answers
    of the \<^verbatim>\<open>platform\<close> module;
  \<^item> \<open>ext\<close>: the state of the collaborators behind the methods that the file calls
    but does not define (model backend, terminal, session store).
\<close>

record World =
  stdout :: "string list"
  todos_dir :: "(string \<times> RawItem list option) list option"
  clock :: string
  environ :: "string list"
  text_files :: "(string \<times> string) list"
  platform_system :: string
  platform_platform :: string
  platform_python_version :: string
  ext :: nat

section \<open>Todo persistence (lines 227--271)\<close>

definition endswith :: "string \<Rightarrow> string \<Rightarrow> bool" where
  "endswith s suf \<longleftrightarrow>
     length suf \<le> length s \<and> drop (length s - length suf) s = suf"

text \<open>Line 237: the sorted names of the directory that end in \<^verbatim>\<open>.json\<close>.\<close>

definition todo_files_of :: "(string \<times> RawItem list option) list \<Rightarrow> string list" where
  "todo_files_of d = sort (filter (\<lambda>f. endswith f ''.json'') (map fst d))"

text \<open>
  Lines 244--246, over the pairs that \<^verbatim>\<open>enumerate\<close> yields. \<^verbatim>\<open>item['description']\<close>
  raises \<^verbatim>\<open>KeyError\<close> on an object without that key, and the comprehension stops there;
  \<^verbatim>\<open>item.get('completed', False)\<close> supplies the default.
\<close>

fun decode_items :: "(nat \<times> RawItem) list \<Rightarrow> error + TodoItem list" where
  "decode_items [] = Inr []"
| "decode_items ((i, item) # rest) =
     (case raw_description item of
        None \<Rightarrow> Inl KeyError
      | Some d \<Rightarrow>
          (case decode_items rest of
             Inl e \<Rightarrow> Inl e
           | Inr ts \<Rightarrow>
               Inr (\<lparr>todo_id = int i, description = d,
                     completed = (case raw_completed item of None \<Rightarrow> False | Some c \<Rightarrow> c)\<rparr>
                    # ts)))"

definition load_todo_from_json :: "World \<Rightarrow> error + TodoItem list" where
  "load_todo_from_json w =
     (case todos_dir w of
        None \<Rightarrow> Inr []
      | Some d \<Rightarrow>
          (let todo_files = todo_files_of d in
           if todo_files = [] then Inr []
           else
             (case map_of d (last todo_files) of
                None \<Rightarrow> Inl FileNotFoundError
              | Some None \<Rightarrow> Inl JSONDecodeError
              | Some (Some todo_data) \<Rightarrow> decode_items (enumerate 0 todo_data))))"

text \<open>
  Lines 248--271. \<^verbatim>\<open>os.makedirs(..., exist_ok=True)\<close> creates the directory when it
  is missing; opening with \<^verbatim>\<open>'w'\<close> replaces an entry of the same name. \<^verbatim>\<open>params\<close> is
  not read.
\<close>

definition todo_data_of :: "TodoItem list \<Rightarrow> RawItem list" where
  "todo_data_of ts =
     map (\<lambda>task. \<lparr>raw_description = Some (description task),
                  raw_completed = Some (completed task)\<rparr>) ts"

definition update_todo_json :: "(string \<times> string) list \<Rightarrow> Agent \<Rightarrow> World \<Rightarrow> World" where
  "update_todo_json ps a w =
     (let d = (case todos_dir w of None \<Rightarrow> [] | Some d \<Rightarrow> d);
          filename = ''todo_'' @ clock w @ ''.json'';
          todo_data = todo_data_of (todo_list (agent_context a))
      in w\<lparr>todos_dir := Some (AList.update filename (Some todo_data) d)\<rparr>)"

text \<open>Lines 137--140 of \<^verbatim>\<open>main_loop\<close>: an empty list is falsy, so it is not stored.\<close>

definition todo_sync :: "Agent \<Rightarrow> World \<Rightarrow> error + Agent" where
  "todo_sync a w =
     (case load_todo_from_json w of
        Inl e \<Rightarrow> Inl e
      | Inr loaded \<Rightarrow>
          Inr (if loaded \<noteq> [] then a\<lparr>agent_context := (agent_context a)\<lparr>todo_list := loaded\<rparr>\<rparr>
               else a))"

section \<open>Collaborators that the file calls but does not define\<close>

text \<open>
  Modelled from the spec: the value that the undefined \<^verbatim>\<open>_get_model_response\<close> returns.
  The source reads only its \<^verbatim>\<open>tool_calls\<close>; the other two fields are those of
  \<^verbatim>\<open>ModelClient.invoke\<close> in section 6 of the specification. A response without tool
  calls has the empty list (line 146 tests truthiness only). The fields carry the prefix
  \<open>response_\<close> where \<^verbatim>\<open>Message\<close> has a field of the same name.
\<close>

record Response =
  response_content :: string
  response_tool_calls :: "ToolCall list"
  completion_signal :: bool

text \<open>
  The methods \<^verbatim>\<open>_call_api\<close>, \<^verbatim>\<open>_get_model_response\<close>, \<^verbatim>\<open>_build_system_reminder_start\<close>,
  \<^verbatim>\<open>_build_system_reminder_end\<close>, \<^verbatim>\<open>_estimate_tokens\<close>, \<^verbatim>\<open>_extract_final_result\<close>,
  \<^verbatim>\<open>_update_terminal_title\<close> and \<^verbatim>\<open>_save_session_summary\<close> are called and nowhere
  defined. They are parameters of the model. Each receives the agent it is called on and
  may read and change the world; none of them changes the agent, which stays with the
  lines of the file. \<^verbatim>\<open>_call_api\<close> answers \<open>None\<close> when the call fails (line 181).
\<close>

record Env =
  call_api :: "Agent \<Rightarrow> ModelType \<Rightarrow> string \<Rightarrow> World \<Rightarrow> string option \<times> World"
  get_model_response :: "Agent \<Rightarrow> World \<Rightarrow> Response \<times> World"
  build_system_reminder_start :: "Agent \<Rightarrow> string"
  build_system_reminder_end :: "Agent \<Rightarrow> string"
  estimate_tokens :: "Agent \<Rightarrow> string option \<Rightarrow> int"
  extract_final_result :: "Agent \<Rightarrow> Context \<Rightarrow> string"
  update_terminal_title :: "Agent \<Rightarrow> string \<Rightarrow> World \<Rightarrow> World"
  save_session_summary :: "Agent \<Rightarrow> string option \<Rightarrow> World \<Rightarrow> World"

section \<open>Construction (lines 64--105, 318--322)\<close>

definition load_claude_md :: "string \<Rightarrow> World \<Rightarrow> string" where
  "load_claude_md path w =
     (case map_of (text_files w) (path @ ''/.claude/CLAUDE.md'') of
        None \<Rightarrow> []
      | Some txt \<Rightarrow> txt)"

definition get_recent_commits :: "string list" where
  "get_recent_commits = []"

definition get_platform_info :: "World \<Rightarrow> (string \<times> string) list" where
  "get_platform_info w =
     [(''os'', platform_system w),
      (''platform'', platform_platform w),
      (''python_version'', platform_python_version w)]"

definition initialize_context :: "string \<Rightarrow> World \<Rightarrow> Context" where
  "initialize_context path w =
     \<lparr>messages = [], todo_list = [], current_directory = path,
      claude_md_content = load_claude_md path w,
      recent_commits = get_recent_commits,
      platform_info = get_platform_info w\<rparr>"

definition check_ide_integration :: "World \<Rightarrow> bool" where
  "check_ide_integration w \<longleftrightarrow>
     ''VSCODE_PID'' \<in> set (environ w) \<or> ''IDEA_INITIAL_DIRECTORY'' \<in> set (environ w)"

definition ClaudeCodeAgent :: "string \<Rightarrow> string \<Rightarrow> World \<Rightarrow> Agent" where
  "ClaudeCodeAgent key path w =
     \<lparr>api_key = key, project_path = path,
      agent_context = initialize_context path w,
      current_model = SONNET,
      sub_agent_depth = 0,
      MAX_SUB_AGENT_DEPTH = 1,
      todos_path = ''~/.claude/todos/'',
      is_ide_integrated = check_ide_integration w\<rparr>"

section \<open>The phases of \<^verbatim>\<open>main_loop\<close>\<close>

definition append_message :: "Message \<Rightarrow> Agent \<Rightarrow> Agent" where
  "append_message m a =
     a\<lparr>agent_context := (agent_context a)\<lparr>messages := messages (agent_context a) @ [m]\<rparr>\<rparr>"

text \<open>Lines 176--181.\<close>

definition check_quota :: "Env \<Rightarrow> Agent \<Rightarrow> World \<Rightarrow> bool \<times> Agent \<times> World" where
  "check_quota env a w =
     (let a1 = a\<lparr>current_model := HAIKU\<rparr>;
          (response, w1) = call_api env a1 HAIKU ''quota'' w
      in (response \<noteq> None, a1, w1))"

text \<open>
  Lines 183--189. \<^verbatim>\<open>str.lower\<close> on the letters A--Z; \<^verbatim>\<open>in\<close> is the substring test.
  A failed call answers \<^verbatim>\<open>None\<close>, which has no \<^verbatim>\<open>lower\<close>.
\<close>

definition lower_char :: "char \<Rightarrow> char" where
  "lower_char c =
     (if CHR ''A'' \<le> c \<and> c \<le> CHR ''Z'' then char_of (of_char c + (32::nat)) else c)"

fun contains :: "string \<Rightarrow> string \<Rightarrow> bool" where
  "contains sub [] \<longleftrightarrow> sub = []"
| "contains sub (c # cs) \<longleftrightarrow> take (length sub) (c # cs) = sub \<or> contains sub cs"

definition check_new_topic ::
  "Env \<Rightarrow> string \<Rightarrow> Agent \<Rightarrow> World \<Rightarrow> error + bool \<times> Agent \<times> World" where
  "check_new_topic env user_input a w =
     (let a1 = a\<lparr>current_model := HAIKU\<rparr>;
          prompt = ''Is this a new topic different from previous conversation: '' @ user_input;
          (response, w1) = call_api env a1 HAIKU prompt w
      in case response of
           None \<Rightarrow> Inl AttributeError
         | Some r \<Rightarrow> Inr (contains ''new_topic'' (map lower_char r), a1, w1))"

text \<open>
  Lines 191--200: both texts are built first, then the first goes to position 0 and the
  second to the end of the message list as it is at that moment.
\<close>

definition system_message :: "string option \<Rightarrow> Message" where
  "system_message txt =
     \<lparr>role = ''system'', content = txt, tool_calls = None, tool_results = None\<rparr>"

definition user_message :: "string \<Rightarrow> Message" where
  "user_message txt =
     \<lparr>role = ''user'', content = Some txt, tool_calls = None, tool_results = None\<rparr>"

definition inject_system_reminders :: "Env \<Rightarrow> Agent \<Rightarrow> Agent" where
  "inject_system_reminders env a =
     (let start_reminder = build_system_reminder_start env a;
          end_reminder = build_system_reminder_end env a;
          c = agent_context a
      in a\<lparr>agent_context := c\<lparr>messages :=
             system_message (Some start_reminder) # messages c
             @ [system_message (Some end_reminder)]\<rparr>\<rparr>)"

text \<open>Lines 202--206.\<close>

definition context_needs_compaction :: "Env \<Rightarrow> Agent \<Rightarrow> bool" where
  "context_needs_compaction env a \<longleftrightarrow>
     sum_list (map (\<lambda>msg. estimate_tokens env a (content msg)) (messages (agent_context a)))
       > 100000"

text \<open>Lines 208--225. The prompt is the literal of lines 213--217.\<close>

definition compact_prompt :: string where
  "compact_prompt =
     [CHR 0x0A] @
     ''        Compress the following conversation into a single block of text.'' @ [CHR 0x0A] @
     ''        Preserve all important information, decisions, and context.'' @ [CHR 0x0A] @
     ''        Format: <compressed_context>...</compressed_context>'' @ [CHR 0x0A] @
     ''        ''"

definition compact_context :: "Env \<Rightarrow> Agent \<Rightarrow> World \<Rightarrow> Agent \<times> World" where
  "compact_context env a w =
     (let a1 = a\<lparr>current_model := SONNET\<rparr>;
          (compressed, w1) = call_api env a1 SONNET compact_prompt w
      in (a1\<lparr>agent_context := (agent_context a1)\<lparr>messages := [system_message compressed]\<rparr>\<rparr>,
          w1))"

text \<open>Lines 303--316.\<close>

definition summary_prompt :: string where
  "summary_prompt =
     [CHR 0x0A] @
     ''        Summarize this conversation for future reference.'' @ [CHR 0x0A] @
     ''        Include key decisions, completed tasks, and any pending items.'' @ [CHR 0x0A] @
     ''        ''"

definition summarize_for_next_session :: "Env \<Rightarrow> Agent \<Rightarrow> World \<Rightarrow> Agent \<times> World" where
  "summarize_for_next_session env a w =
     (let a1 = a\<lparr>current_model := HAIKU\<rparr>;
          (summary, w1) = call_api env a1 HAIKU summary_prompt w
      in (a1, save_session_summary env a1 summary w1))"

text \<open>
  Lines 366--407. A string has no \<^verbatim>\<open>value\<close>, and is equal to no enum member, so a call
  whose tool is a string reaches line 386 and raises there.
\<close>

definition execute_tool :: "ToolCall \<Rightarrow> error + ToolResult" where
  "execute_tool tc =
     (case tool tc of
        ToolStr s \<Rightarrow> Inl AttributeError
      | ToolEnum t \<Rightarrow>
          Inr (if t = EDIT then [(''summary'', PyStr ''File edited''), (''changes'', PyList [])]
               else if t = GREP then
                 [(''summary'', PyStr ''Search completed''), (''matches'', PyList [])]
               else if t = READ then [(''summary'', PyStr ''File read''), (''content'', PyStr [])]
               else if t = BASH then
                 [(''summary'', PyStr ''Command executed''), (''output'', PyStr [])]
               else if t = TASK then [(''summary'', PyStr ''Sub-agent task initiated'')]
               else [(''summary'', PyStr (''Executed '' @ ToolType_value t)),
                     (''output'', PyStr [])]))"

text \<open>
  Lines 409--414. The method prints the \<^verbatim>\<open>value\<close> of the tool and returns \<^verbatim>\<open>True\<close>
  (``For demo, auto-approve''); on a tool given as a string the \<^verbatim>\<open>value\<close> does not
  exist and the method raises. It never returns \<^verbatim>\<open>False\<close>.
\<close>

definition get_user_permission :: "Agent \<Rightarrow> ToolCall \<Rightarrow> World \<Rightarrow> error + bool \<times> World" where
  "get_user_permission a tc w =
     (case tool tc of
        ToolStr s \<Rightarrow> Inl AttributeError
      | ToolEnum t \<Rightarrow>
          Inr (True, w\<lparr>stdout := stdout w @ [''Permission requested for: '' @ ToolType_value t]\<rparr>))"

text \<open>
  Lines 160--167, with the call of \<^verbatim>\<open>_get_user_permission\<close> of line 162. After an
  approved execution, line 165 builds a \<^verbatim>\<open>Message\<close> without the required \<^verbatim>\<open>content\<close>
  (line 40 gives it no default): the constructor raises \<^verbatim>\<open>TypeError\<close> and nothing is
  appended. The \<^verbatim>\<open>if\<close> of line 162 has no \<^verbatim>\<open>else\<close>.
\<close>

definition execute_with_permission ::
  "ToolCall \<Rightarrow> Agent \<Rightarrow> World \<Rightarrow> error + Agent \<times> World" where
  "execute_with_permission tc a w =
     (case get_user_permission a tc w of
        Inl e \<Rightarrow> Inl e
      | Inr (granted, w1) \<Rightarrow>
          if granted then
            (case execute_tool tc of
               Inl e \<Rightarrow> Inl e
             | Inr result \<Rightarrow> Inl TypeError)
          else Inr (a, w1))"

text \<open>Lines 427--431: the method takes \<^verbatim>\<open>self\<close> and nothing else.\<close>

definition should_exit :: "Agent \<Rightarrow> bool" where
  "should_exit a \<longleftrightarrow>
     (let all_complete = list_all completed (todo_list (agent_context a))
      in all_complete \<and> length (todo_list (agent_context a)) > 0)"

text \<open>
  Line 170 calls \<^verbatim>\<open>self._should_exit(response)\<close>: one argument more than the method
  accepts. Python raises \<^verbatim>\<open>TypeError\<close> at the call, before the body runs.
\<close>

definition should_exit_call :: "Response \<Rightarrow> Agent \<Rightarrow> error + bool" where
  "should_exit_call response a = Inl TypeError"

text \<open>Lines 133--135.\<close>

definition compaction_check :: "Env \<Rightarrow> Agent \<Rightarrow> World \<Rightarrow> Agent \<times> World" where
  "compaction_check env a w =
     (if context_needs_compaction env a then compact_context env a w else (a, w))"

text \<open>Lines 133--143: compaction check, todo reload, model call.\<close>

definition iteration_head :: "Env \<Rightarrow> Agent \<Rightarrow> World \<Rightarrow> error + Response \<times> Agent \<times> World" where
  "iteration_head env a w =
     (let (a1, w1) = compaction_check env a w
      in case todo_sync a1 w1 of
           Inl e \<Rightarrow> Inl e
         | Inr a2 \<Rightarrow>
             (let (response, w2) = get_model_response env a2 w1
              in Inr (response, a2, w2)))"

text \<open>
  Lines 113--130: quota check, topic detection, reminders, user message, model choice.
  The flag of the result is \<open>False\<close> when line 116 returned.
\<close>

definition main_loop_prelude ::
  "Env \<Rightarrow> string \<Rightarrow> Agent \<Rightarrow> World \<Rightarrow> error + bool \<times> Agent \<times> World" where
  "main_loop_prelude env user_input a w =
     (case check_quota env a w of
        (False, a0, w0) \<Rightarrow> Inr (False, a0, w0\<lparr>stdout := stdout w0 @ [''Insufficient quota'']\<rparr>)
      | (True, a0, w0) \<Rightarrow>
          (case check_new_topic env user_input a0 w0 of
             Inl e \<Rightarrow> Inl e
           | Inr (is_new_topic, a1, w1) \<Rightarrow>
               (let w2 = (if is_new_topic then update_terminal_title env a1 user_input w1
                          else w1);
                    a2 = inject_system_reminders env a1;
                    a3 = append_message (user_message user_input) a2
                in Inr (True, a3\<lparr>current_model := SONNET\<rparr>, w2))))"

text \<open>Lines 279--293: the sub-agent as it is handed to its own \<^verbatim>\<open>main_loop\<close>.\<close>

definition task_description_of :: "(string \<times> string) list \<Rightarrow> string" where
  "task_description_of task_params =
     (case map_of task_params ''task'' of None \<Rightarrow> [] | Some t \<Rightarrow> t)"

definition make_sub_agent :: "(string \<times> string) list \<Rightarrow> Agent \<Rightarrow> World \<Rightarrow> Agent" where
  "make_sub_agent task_params a w =
     (let task_description = task_description_of task_params;
          sub_agent = ClaudeCodeAgent (api_key a) (project_path a) w;
          sub_agent = sub_agent\<lparr>sub_agent_depth := sub_agent_depth a + 1\<rparr>
      in sub_agent\<lparr>agent_context :=
           \<lparr>messages = [user_message task_description],
            todo_list = [],
            current_directory = current_directory (agent_context a),
            claude_md_content = claude_md_content (agent_context a),
            recent_commits = recent_commits (agent_context a),
            platform_info = platform_info (agent_context a)\<rparr>\<rparr>)"

text \<open>Lines 152--156: the message that carries a sub-agent's result.\<close>

definition task_completed_message :: "ToolResult \<Rightarrow> Message" where
  "task_completed_message result =
     \<lparr>role = ''assistant'', content = Some ''Task completed'',
      tool_calls = None, tool_results = Some [result]\<rparr>"

section \<open>The loop, its dispatch and the sub-agent run\<close>

text \<open>
  \<^verbatim>\<open>main_loop\<close> (lines 107--174), the \<^verbatim>\<open>while True\<close> of line 132, the \<^verbatim>\<open>for\<close> of line
  147 and \<^verbatim>\<open>_spawn_sub_agent_for_task\<close> (lines 273--301) call one another. Neither the
  loop nor the nesting of sub-agents is bounded by the code, so the functions take fuel:
  one unit per loop iteration. \<open>None\<close> means that the fuel ran out; \<open>Some (Inl e)\<close> that
  the exception \<open>e\<close> left \<^verbatim>\<open>main_loop\<close>; \<open>Some (Inr _)\<close> that it returned.
\<close>

function main_loop ::
    "nat \<Rightarrow> Env \<Rightarrow> string \<Rightarrow> Agent \<Rightarrow> World \<Rightarrow> (error + Agent \<times> World) option"
  and processing_loop ::
    "nat \<Rightarrow> Env \<Rightarrow> Agent \<Rightarrow> World \<Rightarrow> (error + Agent \<times> World) option"
  and dispatch_tool_calls ::
    "nat \<Rightarrow> Env \<Rightarrow> ToolCall list \<Rightarrow> Agent \<Rightarrow> World \<Rightarrow> (error + Agent \<times> World) option"
  and spawn_sub_agent_for_task ::
    "nat \<Rightarrow> Env \<Rightarrow> (string \<times> string) list \<Rightarrow> Agent \<Rightarrow> World
       \<Rightarrow> (error + ToolResult \<times> World) option"
where
  "main_loop n env user_input a w =
     (case main_loop_prelude env user_input a w of
        Inl e \<Rightarrow> Some (Inl e)
      | Inr (False, a1, w1) \<Rightarrow> Some (Inr (a1, w1))
      | Inr (True, a1, w1) \<Rightarrow>
          (case processing_loop n env a1 w1 of
             None \<Rightarrow> None
           | Some (Inl e) \<Rightarrow> Some (Inl e)
           | Some (Inr (a2, w2)) \<Rightarrow> Some (Inr (summarize_for_next_session env a2 w2))))"
| "processing_loop 0 env a w = None"
| "processing_loop (Suc n) env a w =
     (case iteration_head env a w of
        Inl e \<Rightarrow> Some (Inl e)
      | Inr (response, a1, w1) \<Rightarrow>
          (case dispatch_tool_calls n env (response_tool_calls response) a1 w1 of
             None \<Rightarrow> None
           | Some (Inl e) \<Rightarrow> Some (Inl e)
           | Some (Inr (a2, w2)) \<Rightarrow>
               (case should_exit_call response a2 of
                  Inl e \<Rightarrow> Some (Inl e)
                | Inr True \<Rightarrow> Some (Inr (a2, w2))
                | Inr False \<Rightarrow> processing_loop n env a2 w2)))"
| "dispatch_tool_calls n env [] a w = Some (Inr (a, w))"
| "dispatch_tool_calls n env (tool_call # rest) a w =
     (if tool tool_call = ToolStr ''Task'' then
        (case spawn_sub_agent_for_task n env (params tool_call) a w of
           None \<Rightarrow> None
         | Some (Inl e) \<Rightarrow> Some (Inl e)
         | Some (Inr (result, w1)) \<Rightarrow>
             dispatch_tool_calls n env rest (append_message (task_completed_message result) a) w1)
      else if tool tool_call = ToolStr ''TodoWrite'' then
        dispatch_tool_calls n env rest a (update_todo_json (params tool_call) a w)
      else
        (case execute_with_permission tool_call a w of
           Inl e \<Rightarrow> Some (Inl e)
         | Inr (a1, w1) \<Rightarrow> dispatch_tool_calls n env rest a1 w1))"
| "spawn_sub_agent_for_task n env task_params a w =
     (let task_description = task_description_of task_params;
          sub_agent = make_sub_agent task_params a w
      in case main_loop n env task_description sub_agent w of
           None \<Rightarrow> None
         | Some (Inl e) \<Rightarrow> Some (Inl e)
         | Some (Inr (sub_agent1, w1)) \<Rightarrow>
             Some (Inr ([(''task'', PyStr task_description),
                         (''result'', PyStr (extract_final_result env a
                                              (agent_context sub_agent1)))],
                        w1)))"
  by pat_completeness auto

text \<open>
  Termination: the fuel never grows; with the fuel unchanged, the dispatch calls the
  spawner, the spawner \<^verbatim>\<open>main_loop\<close>, and \<^verbatim>\<open>main_loop\<close> the loop; the dispatch recurs on
  a shorter list.
\<close>

termination
  apply (relation "measures [
     (\<lambda>x. case x of Inl (Inl (n, _)) \<Rightarrow> n | Inl (Inr (n, _)) \<Rightarrow> n
               | Inr (Inl (n, _)) \<Rightarrow> n | Inr (Inr (n, _)) \<Rightarrow> n),
     (\<lambda>x. case x of Inl (Inl _) \<Rightarrow> 1 | Inl (Inr _) \<Rightarrow> 0
               | Inr (Inl _) \<Rightarrow> 3 | Inr (Inr _) \<Rightarrow> 2),
     (\<lambda>x. case x of Inr (Inl (n, env, tcs, _)) \<Rightarrow> length tcs | _ \<Rightarrow> 0)]")
  apply simp_all
  done

section \<open>Terms of the specification and concrete inputs\<close>

text \<open>
  The snapshots of a directory, in the words of the specification: the entries whose
  name ends in \<^verbatim>\<open>.json\<close>. Names are compared as Python compares strings, character
  by character, a proper prefix being smaller.
\<close>

definition snapshot_names :: "(string \<times> RawItem list option) list \<Rightarrow> string set" where
  "snapshot_names d = {f \<in> fst ` set d. endswith f ''.json''}"

text \<open>What one decoded object becomes at a given position.\<close>

definition decode_item :: "nat \<times> RawItem \<Rightarrow> TodoItem" where
  "decode_item p =
     \<lparr>todo_id = int (fst p),
      description = (case raw_description (snd p) of None \<Rightarrow> [] | Some d \<Rightarrow> d),
      completed = (case raw_completed (snd p) of None \<Rightarrow> False | Some c \<Rightarrow> c)\<rparr>"

text \<open>A world without the todo directory, and two directories to put there.\<close>

definition w_none :: World where
  "w_none = \<lparr>stdout = [], todos_dir = None, clock = ''20240103_000000'', environ = [],
     text_files = [], platform_system = ''Linux'', platform_platform = ''Linux-6'',
     platform_python_version = ''3.12'', ext = 0\<rparr>"

definition d_plain :: "(string \<times> RawItem list option) list" where
  "d_plain = [(''notes.txt'', None)]"

definition d_two :: "(string \<times> RawItem list option) list" where
  "d_two =
     [(''todo_20240102_000000.json'',
         Some [\<lparr>raw_description = Some ''write tests'', raw_completed = None\<rparr>,
               \<lparr>raw_description = Some ''ship'', raw_completed = Some True\<rparr>]),
      (''todo_20240101_000000.json'', Some []),
      (''notes.txt'', None)]"

text \<open>
  The agent of the example at the end of the file, constructed in that world, and a copy
  that holds one open todo.
\<close>

definition root_agent :: Agent where
  "root_agent = ClaudeCodeAgent ''your-api-key'' ''/path/to/project'' w_none"

definition write_tests :: TodoItem where
  "write_tests = \<lparr>todo_id = 0, description = ''write tests'', completed = False\<rparr>"

definition agent_with_todo :: Agent where
  "agent_with_todo =
     root_agent\<lparr>agent_context := (agent_context root_agent)\<lparr>todo_list := [write_tests]\<rparr>\<rparr>"

text \<open>
  A todo directory whose only snapshot is the empty array.
\<close>

definition w_empty_snapshot :: World where
  "w_empty_snapshot = w_none\<lparr>todos_dir := Some [(''todo_20240101_000000.json'', Some [])]\<rparr>"

text \<open>
  A model response without tool calls and without completion signal.
\<close>

definition quiet_response :: Response where
  "quiet_response =
     \<lparr>response_content = ''ok'', response_tool_calls = [], completion_signal = False\<rparr>"

text \<open>
  Collaborators that answer every \<^verbatim>\<open>_call_api\<close> with \<open>reply\<close> and every
  \<^verbatim>\<open>_get_model_response\<close> with \<open>response\<close>, leave the world alone, estimate every
  message at zero tokens.
\<close>

definition env_of :: "string option \<Rightarrow> Response \<Rightarrow> Env" where
  "env_of reply response =
     \<lparr>call_api = (\<lambda>a m prompt w. (reply, w)),
      get_model_response = (\<lambda>a w. (response, w)),
      build_system_reminder_start = (\<lambda>a. ''environment''),
      build_system_reminder_end = (\<lambda>a. ''todo memory''),
      estimate_tokens = (\<lambda>a txt. 0),
      extract_final_result = (\<lambda>a c. ''final''),
      update_terminal_title = (\<lambda>a title w. w),
      save_session_summary = (\<lambda>a summary w. w)\<rparr>"

text \<open>
  The exit condition in the words of the specification (section 4.1, step 7): an
  explicit completion signal, or a non-empty todo list with every item completed.
\<close>

definition spec_exit_condition :: "Response \<Rightarrow> Agent \<Rightarrow> bool" where
  "spec_exit_condition response a \<longleftrightarrow>
     completion_signal response \<or>
     (todo_list (agent_context a) \<noteq> [] \<and> list_all completed (todo_list (agent_context a)))"

text \<open>The world whose todo directory is \<open>d_two\<close>.\<close>

definition w_two :: World where
  "w_two = w_none\<lparr>todos_dir := Some d_two\<rparr>"

text \<open>
  The root agent in the middle of a conversation of three messages, and the same agent
  after a compaction that produced the text \<^verbatim>\<open>summary\<close>.
\<close>

definition chatty_agent :: Agent where
  "chatty_agent =
     root_agent\<lparr>agent_context := (agent_context root_agent)\<lparr>messages :=
       [\<lparr>role = ''system'', content = Some ''environment'',
         tool_calls = None, tool_results = None\<rparr>,
        \<lparr>role = ''user'', content = Some ''fix bug'',
         tool_calls = None, tool_results = None\<rparr>,
        \<lparr>role = ''assistant'', content = Some ''Task completed'',
         tool_calls = None, tool_results = Some [[(''task'', PyStr ''find all TODOs'')]]\<rparr>]\<rparr>\<rparr>"

definition compacted_agent :: Agent where
  "compacted_agent =
     root_agent\<lparr>current_model := SONNET,
                agent_context := (agent_context root_agent)\<lparr>messages :=
                  [\<lparr>role = ''system'', content = Some ''summary'',
                    tool_calls = None, tool_results = None\<rparr>]\<rparr>\<rparr>"

text \<open>
  A todo directory whose latest snapshot holds two completed items (the example of
  section 8 of the specification), the list that a load returns from it, and the root
  agent holding that list.
\<close>

definition w_done :: World where
  "w_done =
     w_none\<lparr>todos_dir := Some
       [(''todo_20240102_000000.json'',
           Some [\<lparr>raw_description = Some ''write tests'', raw_completed = Some True\<rparr>,
                 \<lparr>raw_description = Some ''ship'', raw_completed = Some True\<rparr>])]\<rparr>"

definition done_todos :: "TodoItem list" where
  "done_todos =
     [\<lparr>todo_id = 0, description = ''write tests'', completed = True\<rparr>,
      \<lparr>todo_id = 1, description = ''ship'', completed = True\<rparr>]"

definition agent_done :: Agent where
  "agent_done = root_agent\<lparr>agent_context := (agent_context root_agent)\<lparr>todo_list := done_todos\<rparr>\<rparr>"

text \<open>
  The parameters of a \<^verbatim>\<open>Task\<close> call, the sub-agent that the root agent builds for it
  (depth 1), and the call itself.
\<close>

definition find_todos_params :: "(string \<times> string) list" where
  "find_todos_params = [(''task'', ''find all TODOs'')]"

definition depth_one_agent :: Agent where
  "depth_one_agent = make_sub_agent find_todos_params root_agent w_none"

definition task_call :: "(string \<times> string) list \<Rightarrow> ToolCall" where
  "task_call ps = \<lparr>tool = ToolStr ''Task'', params = ps\<rparr>"

text \<open>
  A model that asks the root agent for that \<^verbatim>\<open>Task\<close> and gives every sub-agent a
  response without tool calls; quota and topic calls answer \<^verbatim>\<open>ok\<close>.
\<close>

definition task_response :: Response where
  "task_response =
     \<lparr>response_content = ''delegating'',
      response_tool_calls = [task_call find_todos_params],
      completion_signal = False\<rparr>"

definition env_task_at_root :: Env where
  "env_task_at_root =
     (env_of (Some ''ok'') quiet_response)
       \<lparr>get_model_response :=
          (\<lambda>a w. (if sub_agent_depth a = 0 then task_response else quiet_response, w))\<rparr>"

text \<open>
  The tool result of a sub-agent run under \<open>env_of\<close>, whose \<^verbatim>\<open>_extract_final_result\<close>
  answers \<^verbatim>\<open>final\<close>.
\<close>

definition final_result_of :: "(string \<times> string) list \<Rightarrow> ToolResult" where
  "final_result_of ps = [(''task'', PyStr (task_description_of ps)), (''result'', PyStr ''final'')]"

section \<open>Properties\<close>

subsection \<open>Loading the todo list\<close>

lemma sorted_last_Max: "sorted xs \<Longrightarrow> xs \<noteq> [] \<Longrightarrow> last xs = Max (set xs)"
proof (induction xs)
  case Nil
  then show ?case by simp
next
  case (Cons x xs)
  show ?case
  proof (cases "xs = []")
    case True
    then show ?thesis by simp
  next
    case False
    from Cons.prems have "sorted xs" and le: "\<forall>y\<in>set xs. x \<le> y" by simp_all
    with Cons.IH False have IH: "last xs = Max (set xs)" by simp
    from False have "Max (set xs) \<in> set xs" by simp
    with le have "x \<le> Max (set xs)" by blast
    with False IH show ?thesis by (simp add: max_absorb2)
  qed
qed

lemma set_todo_files_of: "set (todo_files_of d) = snapshot_names d"
  by (auto simp: todo_files_of_def snapshot_names_def)

lemma last_todo_files_of:
  "todo_files_of d \<noteq> [] \<Longrightarrow> last (todo_files_of d) = Max (snapshot_names d)"
  using sorted_last_Max [of "todo_files_of d"]
  by (simp add: set_todo_files_of) (simp add: todo_files_of_def)

lemma decode_items_total:
  "\<forall>p\<in>set ps. raw_description (snd p) \<noteq> None \<Longrightarrow> decode_items ps = Inr (map decode_item ps)"
  by (induction ps rule: decode_items.induct) (auto simp: decode_item_def)

lemma load_todo_from_json_cases:
  "load_todo_from_json w =
     (case todos_dir w of
        None \<Rightarrow> Inr []
      | Some d \<Rightarrow>
          if snapshot_names d = {} then Inr []
          else (case map_of d (Max (snapshot_names d)) of
                  None \<Rightarrow> Inl FileNotFoundError
                | Some None \<Rightarrow> Inl JSONDecodeError
                | Some (Some todo_data) \<Rightarrow> decode_items (enumerate 0 todo_data)))"
proof (cases "todos_dir w")
  case None
  then show ?thesis by (simp add: load_todo_from_json_def)
next
  case (Some d)
  show ?thesis
  proof (cases "todo_files_of d = []")
    case True
    then have "snapshot_names d = {}" using set_todo_files_of [of d] by simp
    with Some True show ?thesis by (simp add: load_todo_from_json_def)
  next
    case False
    then have "snapshot_names d \<noteq> {}" using set_todo_files_of [of d] by auto
    with Some False show ?thesis
      by (simp add: load_todo_from_json_def last_todo_files_of)
  qed
qed

text \<open>
  C7. \<^verbatim>\<open>_load_todo_from_json\<close> returns the empty list when the directory is missing or
  holds no snapshot. Otherwise it decodes the snapshot with the greatest name: when that
  snapshot is a decodable array whose objects all carry a description, the result has one
  item per object, the item at position \<open>i\<close> has id \<open>i\<close> and the object's description,
  and its completed flag is the object's, or false when the object has none.
\<close>

theorem load_todo_from_json_latest:
  "(todos_dir w = None \<longrightarrow> load_todo_from_json w = Inr []) \<and>
   (\<forall>d. todos_dir w = Some d \<and> snapshot_names d = {} \<longrightarrow> load_todo_from_json w = Inr []) \<and>
   (\<forall>d todo_data.
      todos_dir w = Some d \<and> snapshot_names d \<noteq> {} \<and>
      map_of d (Max (snapshot_names d)) = Some (Some todo_data) \<and>
      (\<forall>item\<in>set todo_data. raw_description item \<noteq> None) \<longrightarrow>
      (\<exists>ts. load_todo_from_json w = Inr ts \<and> length ts = length todo_data \<and>
         (\<forall>i<length todo_data.
            todo_id (ts ! i) = int i \<and>
            raw_description (todo_data ! i) = Some (description (ts ! i)) \<and>
            completed (ts ! i) =
              (case raw_completed (todo_data ! i) of None \<Rightarrow> False | Some c \<Rightarrow> c))))"
proof (intro conjI allI impI)
  assume "todos_dir w = None"
  then show "load_todo_from_json w = Inr []" by (simp add: load_todo_from_json_cases)
next
  fix d assume "todos_dir w = Some d \<and> snapshot_names d = {}"
  then show "load_todo_from_json w = Inr []" by (simp add: load_todo_from_json_cases)
next
  fix d todo_data
  assume h: "todos_dir w = Some d \<and> snapshot_names d \<noteq> {} \<and>
      map_of d (Max (snapshot_names d)) = Some (Some todo_data) \<and>
      (\<forall>item\<in>set todo_data. raw_description item \<noteq> None)"
  then have "\<forall>p\<in>set (enumerate 0 todo_data). raw_description (snd p) \<noteq> None"
    by (auto simp: in_set_enumerate_eq)
  then have dec: "decode_items (enumerate 0 todo_data) = Inr (map decode_item (enumerate 0 todo_data))"
    by (rule decode_items_total)
  let ?ts = "map decode_item (enumerate 0 todo_data)"
  from h dec have "load_todo_from_json w = Inr ?ts" by (simp add: load_todo_from_json_cases)
  moreover have "length ?ts = length todo_data" by simp
  moreover have "\<forall>i<length todo_data.
            todo_id (?ts ! i) = int i \<and>
            raw_description (todo_data ! i) = Some (description (?ts ! i)) \<and>
            completed (?ts ! i) =
              (case raw_completed (todo_data ! i) of None \<Rightarrow> False | Some c \<Rightarrow> c)"
  proof (intro allI impI)
    fix i assume i: "i < length todo_data"
    then have "todo_data ! i \<in> set todo_data" by simp
    with h obtain dsc where "raw_description (todo_data ! i) = Some dsc" by auto
    with i show "todo_id (?ts ! i) = int i \<and>
            raw_description (todo_data ! i) = Some (description (?ts ! i)) \<and>
            completed (?ts ! i) =
              (case raw_completed (todo_data ! i) of None \<Rightarrow> False | Some c \<Rightarrow> c)"
      by (simp add: nth_enumerate_eq decode_item_def)
  qed
  ultimately show "\<exists>ts. load_todo_from_json w = Inr ts \<and> length ts = length todo_data \<and>
         (\<forall>i<length todo_data.
            todo_id (ts ! i) = int i \<and>
            raw_description (todo_data ! i) = Some (description (ts ! i)) \<and>
            completed (ts ! i) =
              (case raw_completed (todo_data ! i) of None \<Rightarrow> False | Some c \<Rightarrow> c))"
    by blast
qed

lemma snapshot_names_d_plain: "snapshot_names d_plain = {}"
  by (simp add: snapshot_names_def d_plain_def endswith_def)

lemma snapshot_names_d_two:
  "snapshot_names d_two = {''todo_20240102_000000.json'', ''todo_20240101_000000.json''}"
  by (auto simp: snapshot_names_def d_two_def endswith_def)

lemma Max_d_two: "Max (snapshot_names d_two) = ''todo_20240102_000000.json''"
  by (simp add: snapshot_names_d_two)

text \<open>The three cases at concrete worlds.\<close>

theorem load_todo_from_json_latest_witness:
  "load_todo_from_json w_none = Inr [] \<and>
   load_todo_from_json (w_none\<lparr>todos_dir := Some d_plain\<rparr>) = Inr [] \<and>
   load_todo_from_json (w_none\<lparr>todos_dir := Some d_two\<rparr>) =
     Inr [\<lparr>todo_id = 0, description = ''write tests'', completed = False\<rparr>,
          \<lparr>todo_id = 1, description = ''ship'', completed = True\<rparr>]"
proof (intro conjI)
  show "load_todo_from_json w_none = Inr []"
    using load_todo_from_json_latest [of w_none] by (simp add: w_none_def)
next
  show "load_todo_from_json (w_none\<lparr>todos_dir := Some d_plain\<rparr>) = Inr []"
    using load_todo_from_json_latest [of "w_none\<lparr>todos_dir := Some d_plain\<rparr>"]
    by (simp add: snapshot_names_d_plain)
next
  let ?data = "[\<lparr>raw_description = Some ''write tests'', raw_completed = None\<rparr>,
               \<lparr>raw_description = Some ''ship'', raw_completed = Some True\<rparr>]"
  have m: "map_of d_two (Max (snapshot_names d_two)) = Some (Some ?data)"
    by (simp add: Max_d_two) (simp add: d_two_def)
  have ne: "snapshot_names d_two \<noteq> {}" by (simp add: snapshot_names_d_two)
  from load_todo_from_json_latest [of "w_none\<lparr>todos_dir := Some d_two\<rparr>"] m ne
  obtain ts where ts: "load_todo_from_json (w_none\<lparr>todos_dir := Some d_two\<rparr>) = Inr ts"
    and len: "length ts = 2"
    and nth: "\<forall>i<2. todo_id (ts ! i) = int i \<and>
            raw_description (?data ! i) = Some (description (ts ! i)) \<and>
            completed (ts ! i) =
              (case raw_completed (?data ! i) of None \<Rightarrow> False | Some c \<Rightarrow> c)"
    by fastforce
  from len obtain t0 t1 where t: "ts = [t0, t1]"
    by (metis One_nat_def Suc_1 length_0_conv length_Suc_conv)
  from nth [rule_format, of 0] nth [rule_format, of 1]
  show "load_todo_from_json (w_none\<lparr>todos_dir := Some d_two\<rparr>) =
     Inr [\<lparr>todo_id = 0, description = ''write tests'', completed = False\<rparr>,
          \<lparr>todo_id = 1, description = ''ship'', completed = True\<rparr>]"
    using ts t by simp
qed

subsection \<open>Writing the todo list\<close>

text \<open>
  C10. \<^verbatim>\<open>_update_todo_json\<close> stores, under the name built from the clock, the
  description and the completed flag of each item of the agent's own todo list, in
  order. The parameters of the call do not matter: any two parameter dictionaries give
  the same world, and a \<^verbatim>\<open>TodoWrite\<close> dispatch does exactly this write and leaves the
  agent as it was.
\<close>

theorem update_todo_json_ignores_params:
  "todos_dir (update_todo_json ps a w) =
     Some (AList.update (''todo_'' @ clock w @ ''.json'')
             (Some (todo_data_of (todo_list (agent_context a))))
             (case todos_dir w of None \<Rightarrow> [] | Some d \<Rightarrow> d)) \<and>
   map raw_description (todo_data_of (todo_list (agent_context a))) =
     map (\<lambda>t. Some (description t)) (todo_list (agent_context a)) \<and>
   map raw_completed (todo_data_of (todo_list (agent_context a))) =
     map (\<lambda>t. Some (completed t)) (todo_list (agent_context a)) \<and>
   update_todo_json ps a w = update_todo_json ps' a w \<and>
   dispatch_tool_calls n env [\<lparr>tool = ToolStr ''TodoWrite'', params = ps\<rparr>] a w =
     Some (Inr (a, update_todo_json ps' a w))"
  by (simp add: update_todo_json_def todo_data_of_def Let_def comp_def)

subsection \<open>Reloading the todo list in each iteration\<close>

lemma todo_list_compaction_check:
  "todo_list (agent_context (fst (compaction_check env a w))) = todo_list (agent_context a)"
  by (simp add: compaction_check_def compact_context_def Let_def split: prod.splits)

text \<open>
  C8, as amended. Every iteration reloads the todo list (after the compaction check).
  When the loaded list is not empty it replaces the list in memory; when it is empty,
  whether for lack of a snapshot or because the latest snapshot is the empty array, the
  list in memory stays as it was.
\<close>

theorem todo_reload_keeps_list_on_empty_load:
  assumes "iteration_head env a w = Inr (response, a', w')"
  shows "\<exists>loaded. load_todo_from_json (snd (compaction_check env a w)) = Inr loaded \<and>
           todo_list (agent_context a') =
             (if loaded = [] then todo_list (agent_context a) else loaded)"
proof -
  obtain a1 w1 where c: "compaction_check env a w = (a1, w1)" by (cases "compaction_check env a w")
  with todo_list_compaction_check [of env a w]
  have tl: "todo_list (agent_context a1) = todo_list (agent_context a)" by simp
  from assms c obtain loaded where l: "load_todo_from_json w1 = Inr loaded"
    by (auto simp: iteration_head_def todo_sync_def split: sum.splits prod.splits)
  with assms c tl have "todo_list (agent_context a') =
             (if loaded = [] then todo_list (agent_context a) else loaded)"
    by (auto simp: iteration_head_def todo_sync_def split: sum.splits prod.splits if_splits)
  with l c show ?thesis by simp
qed

lemma compaction_check_quiet: "compaction_check (env_of reply response) a w = (a, w)"
  by (simp add: compaction_check_def context_needs_compaction_def env_of_def)

lemma load_w_two:
  "load_todo_from_json w_two =
     Inr [\<lparr>todo_id = 0, description = ''write tests'', completed = False\<rparr>,
          \<lparr>todo_id = 1, description = ''ship'', completed = True\<rparr>]"
  by (simp add: load_todo_from_json_cases w_two_def snapshot_names_d_two Max_d_two)
     (simp add: d_two_def enumerate_eq_zip)

text \<open>
  An iteration in which a snapshot of two items replaces the list in memory.
\<close>

theorem todo_reload_keeps_list_on_empty_load_witness:
  "iteration_head (env_of None quiet_response) agent_with_todo w_two =
     Inr (quiet_response,
          agent_with_todo\<lparr>agent_context := (agent_context agent_with_todo)\<lparr>todo_list :=
            [\<lparr>todo_id = 0, description = ''write tests'', completed = False\<rparr>,
             \<lparr>todo_id = 1, description = ''ship'', completed = True\<rparr>]\<rparr>\<rparr>,
          w_two) \<and>
   (\<exists>loaded. load_todo_from_json (snd (compaction_check (env_of None quiet_response) agent_with_todo w_two)) = Inr loaded \<and>
      todo_list (agent_context (agent_with_todo\<lparr>agent_context := (agent_context agent_with_todo)\<lparr>todo_list :=
            [\<lparr>todo_id = 0, description = ''write tests'', completed = False\<rparr>,
             \<lparr>todo_id = 1, description = ''ship'', completed = True\<rparr>]\<rparr>\<rparr>)) =
        (if loaded = [] then todo_list (agent_context agent_with_todo) else loaded))"
proof -
  have h: "iteration_head (env_of None quiet_response) agent_with_todo w_two =
     Inr (quiet_response,
          agent_with_todo\<lparr>agent_context := (agent_context agent_with_todo)\<lparr>todo_list :=
            [\<lparr>todo_id = 0, description = ''write tests'', completed = False\<rparr>,
             \<lparr>todo_id = 1, description = ''ship'', completed = True\<rparr>]\<rparr>\<rparr>,
          w_two)"
    by (simp add: iteration_head_def compaction_check_quiet todo_sync_def load_w_two)
       (simp add: env_of_def)
  from h todo_reload_keeps_list_on_empty_load [OF h] show ?thesis by blast
qed

lemma load_w_empty_snapshot: "load_todo_from_json w_empty_snapshot = Inr []"
  by (simp add: load_todo_from_json_def w_empty_snapshot_def w_none_def todo_files_of_def
      endswith_def enumerate_eq_zip)

text \<open>
  C8 as stated fails: the directory holds a snapshot, the empty array; the load returns
  the empty list; after the iteration the agent still has its one todo.
\<close>

theorem empty_snapshot_not_stored_counterexample:
  "map_of [(''todo_20240101_000000.json'', Some [])] ''todo_20240101_000000.json'' = Some (Some []) \<and>
   todos_dir w_empty_snapshot = Some [(''todo_20240101_000000.json'', Some [])] \<and>
   load_todo_from_json w_empty_snapshot = Inr [] \<and>
   iteration_head (env_of None quiet_response) agent_with_todo w_empty_snapshot =
     Inr (quiet_response, agent_with_todo, w_empty_snapshot) \<and>
   todo_list (agent_context agent_with_todo) = [write_tests]"
  apply (simp add: load_w_empty_snapshot iteration_head_def compaction_check_quiet todo_sync_def)
  apply (simp add: env_of_def w_empty_snapshot_def w_none_def agent_with_todo_def)
  done

subsection \<open>The exit check\<close>

text \<open>
  The body of \<^verbatim>\<open>_should_exit\<close>: the todo list is non-empty and every item of it is
  completed.
\<close>

lemma should_exit_iff:
  "should_exit a \<longleftrightarrow>
     todo_list (agent_context a) \<noteq> [] \<and> list_all completed (todo_list (agent_context a))"
  by (auto simp: should_exit_def Let_def)

text \<open>
  Because of the call of line 170, the loop ends by an exception (or runs out of fuel
  inside a sub-agent), never by \<^verbatim>\<open>break\<close>; a run returns only at line 116.
\<close>

lemma processing_loop_never_returns: "processing_loop n env a w \<noteq> Some (Inr x)"
  by (cases n) (auto simp: should_exit_call_def split: sum.splits option.splits prod.splits)

lemma main_loop_returns_only_on_quota_failure:
  "main_loop n env user_input a w = Some (Inr x) \<Longrightarrow> \<not> fst (check_quota env a w)"
  by (auto simp: main_loop_prelude_def processing_loop_never_returns
      split: sum.splits option.splits prod.splits bool.splits)

text \<open>The load from the directory with the two completed items.\<close>

lemma load_w_done: "load_todo_from_json w_done = Inr done_todos"
  by (simp add: load_todo_from_json_def w_done_def w_none_def todo_files_of_def
      endswith_def enumerate_eq_zip done_todos_def)

text \<open>
  A run whose quota and topic calls answer \<^verbatim>\<open>ok\<close>, up to line 130, and the head of
  an iteration when no compaction is due.
\<close>

lemma prelude_env_of_ok:
  "main_loop_prelude (env_of (Some ''ok'') response) user_input a w =
     Inr (True,
          a\<lparr>current_model := SONNET,
            agent_context := (agent_context a)\<lparr>messages :=
              system_message (Some ''environment'') # messages (agent_context a)
              @ [system_message (Some ''todo memory''), user_message user_input]\<rparr>\<rparr>,
          w)"
  by (simp add: main_loop_prelude_def check_quota_def check_new_topic_def Let_def
      inject_system_reminders_def append_message_def env_of_def)

lemma iteration_head_env_of:
  "iteration_head (env_of reply response) a w =
     (case todo_sync a w of Inl e \<Rightarrow> Inl e | Inr a2 \<Rightarrow> Inr (response, a2, w))"
  by (simp add: iteration_head_def compaction_check_quiet split: sum.splits)
     (simp add: env_of_def)

text \<open>
  C2. The latest snapshot holds two items, both completed. The load returns them, the
  body of \<^verbatim>\<open>_should_exit\<close> holds for an agent with that list, and so does the exit
  condition of the specification. The loop does not exit: the iteration ends at the
  call of line 170 with \<^verbatim>\<open>TypeError\<close>, and so does the whole run of the fresh agent.
\<close>

theorem loop_raises_at_exit_check:
  "load_todo_from_json w_done = Inr done_todos \<and>
   should_exit agent_done \<and>
   spec_exit_condition quiet_response agent_done \<and>
   processing_loop (Suc 0) (env_of (Some ''ok'') quiet_response) agent_done w_done =
     Some (Inl TypeError) \<and>
   main_loop (Suc 0) (env_of (Some ''ok'') quiet_response) ''fix bug'' root_agent w_done =
     Some (Inl TypeError)"
proof -
  have e: "should_exit agent_done"
    by (simp add: should_exit_iff agent_done_def done_todos_def)
  then have s: "spec_exit_condition quiet_response agent_done"
    by (simp add: spec_exit_condition_def should_exit_iff)
  have p: "processing_loop (Suc 0) (env_of reply quiet_response) a w_done = Some (Inl TypeError)"
    for reply a
    by (simp add: iteration_head_env_of todo_sync_def load_w_done quiet_response_def
        should_exit_call_def done_todos_def)
  have m: "main_loop (Suc 0) (env_of (Some ''ok'') quiet_response) ''fix bug'' root_agent w_done =
     Some (Inl TypeError)"
    by (simp add: prelude_env_of_ok p del: processing_loop.simps)
  from e s p m load_w_done show ?thesis by simp
qed

subsection \<open>Compaction\<close>

text \<open>
  C6. After \<^verbatim>\<open>_compact_context\<close> the message list is exactly one message: its role is
  \<^verbatim>\<open>system\<close>, its content is what \<^verbatim>\<open>_call_api\<close> answered to the compaction prompt at
  the primary model, and it carries no tool calls and no tool results. Whatever the
  list held before is gone; nothing else of the agent changes but \<^verbatim>\<open>current_model\<close>.
  A second compaction right after the first gives the same agent except for the
  content of that message, which is the answer of the second call; when the two
  answers are equal, the agent is the same.
\<close>

theorem compact_context_single_system_message:
  assumes "compact_context env a w = (a1, w1)" and "compact_context env a1 w1 = (a2, w2)"
  shows "a1 = a\<lparr>current_model := SONNET,
                agent_context := (agent_context a)\<lparr>messages :=
                  [\<lparr>role = ''system'',
                    content = fst (call_api env (a\<lparr>current_model := SONNET\<rparr>) SONNET
                                     compact_prompt w),
                    tool_calls = None, tool_results = None\<rparr>]\<rparr>\<rparr> \<and>
         w1 = snd (call_api env (a\<lparr>current_model := SONNET\<rparr>) SONNET compact_prompt w) \<and>
         a2 = a1\<lparr>agent_context := (agent_context a1)\<lparr>messages :=
                  [\<lparr>role = ''system'',
                    content = fst (call_api env a1 SONNET compact_prompt w1),
                    tool_calls = None, tool_results = None\<rparr>]\<rparr>\<rparr> \<and>
         w2 = snd (call_api env a1 SONNET compact_prompt w1) \<and>
         (fst (call_api env a1 SONNET compact_prompt w1) =
            fst (call_api env (a\<lparr>current_model := SONNET\<rparr>) SONNET compact_prompt w)
          \<longrightarrow> a2 = a1)"
proof -
  have step: "compact_context env b v =
      (b\<lparr>current_model := SONNET,
         agent_context := (agent_context b)\<lparr>messages :=
           [\<lparr>role = ''system'',
             content = fst (call_api env (b\<lparr>current_model := SONNET\<rparr>) SONNET compact_prompt v),
             tool_calls = None, tool_results = None\<rparr>]\<rparr>\<rparr>,
       snd (call_api env (b\<lparr>current_model := SONNET\<rparr>) SONNET compact_prompt v))" for b v
    by (simp add: compact_context_def Let_def system_message_def split: prod.splits)
  from assms(1) step [of a w] have a1: "a1 = a\<lparr>current_model := SONNET,
         agent_context := (agent_context a)\<lparr>messages :=
           [\<lparr>role = ''system'',
             content = fst (call_api env (a\<lparr>current_model := SONNET\<rparr>) SONNET compact_prompt w),
             tool_calls = None, tool_results = None\<rparr>]\<rparr>\<rparr>"
    and w1: "w1 = snd (call_api env (a\<lparr>current_model := SONNET\<rparr>) SONNET compact_prompt w)"
    by simp_all
  from a1 have sonnet: "a1\<lparr>current_model := SONNET\<rparr> = a1" by simp
  from assms(2) step [of a1 w1] sonnet have a2: "a2 = a1\<lparr>agent_context := (agent_context a1)\<lparr>messages :=
           [\<lparr>role = ''system'',
             content = fst (call_api env a1 SONNET compact_prompt w1),
             tool_calls = None, tool_results = None\<rparr>]\<rparr>\<rparr>"
    and w2: "w2 = snd (call_api env a1 SONNET compact_prompt w1)"
    by simp_all
  have same: "a2 = a1"
    if "fst (call_api env a1 SONNET compact_prompt w1) =
            fst (call_api env (a\<lparr>current_model := SONNET\<rparr>) SONNET compact_prompt w)"
    using that a2 a1 by simp
  from a1 w1 a2 w2 same show ?thesis by blast
qed

text \<open>
  An agent with three messages, compacted twice; both calls answer \<^verbatim>\<open>summary\<close>.
\<close>

theorem compact_context_single_system_message_witness:
  "length (messages (agent_context chatty_agent)) = 3 \<and>
   compact_context (env_of (Some ''summary'') quiet_response) chatty_agent w_none =
     (compacted_agent, w_none) \<and>
   compact_context (env_of (Some ''summary'') quiet_response) compacted_agent w_none =
     (compacted_agent, w_none) \<and>
   messages (agent_context compacted_agent) =
     [\<lparr>role = ''system'', content = Some ''summary'', tool_calls = None, tool_results = None\<rparr>]"
proof -
  have h1: "compact_context (env_of (Some ''summary'') quiet_response) chatty_agent w_none =
     (compacted_agent, w_none)"
    by (simp add: compact_context_def compacted_agent_def chatty_agent_def env_of_def
        system_message_def)
  have h2: "compact_context (env_of (Some ''summary'') quiet_response) compacted_agent w_none =
     (compacted_agent, w_none)"
    by (simp add: compact_context_def compacted_agent_def env_of_def system_message_def)
  have l: "length (messages (agent_context chatty_agent)) = 3"
    by (simp add: chatty_agent_def)
  have c: "fst (call_api (env_of (Some ''summary'') quiet_response) b SONNET compact_prompt v) =
             Some ''summary''" for b v
    by (simp add: env_of_def)
  have msg: "messages (agent_context compacted_agent) =
     [\<lparr>role = ''system'', content = Some ''summary'', tool_calls = None, tool_results = None\<rparr>]"
    using compact_context_single_system_message [OF h1 h2] c
    by (simp add: compacted_agent_def)
  from h1 h2 l msg show ?thesis by simp
qed

subsection \<open>The start of a run\<close>

text \<open>
  C9. When the quota call answers \<open>None\<close>, \<^verbatim>\<open>main_loop\<close> returns whatever the fuel,
  also with none, so without any loop iteration: the agent has its context unchanged
  (only \<^verbatim>\<open>current_model\<close> was set by the quota check), and the world is the one the
  quota call left, with the line \<^verbatim>\<open>Insufficient quota\<close> printed.
\<close>

theorem quota_failure_returns_at_once:
  assumes "fst (call_api env (a\<lparr>current_model := HAIKU\<rparr>) HAIKU ''quota'' w) = None"
  shows "\<exists>w1. snd (call_api env (a\<lparr>current_model := HAIKU\<rparr>) HAIKU ''quota'' w) = w1 \<and>
           main_loop n env user_input a w =
             Some (Inr (a\<lparr>current_model := HAIKU\<rparr>,
                        w1\<lparr>stdout := stdout w1 @ [''Insufficient quota'']\<rparr>)) \<and>
           agent_context (a\<lparr>current_model := HAIKU\<rparr>) = agent_context a"
proof -
  obtain r w1 where c: "call_api env (a\<lparr>current_model := HAIKU\<rparr>) HAIKU ''quota'' w = (r, w1)"
    by (cases "call_api env (a\<lparr>current_model := HAIKU\<rparr>) HAIKU ''quota'' w")
  with assms have r: "r = None" by simp
  from c r have "check_quota env a w = (False, a\<lparr>current_model := HAIKU\<rparr>, w1)"
    by (simp add: check_quota_def)
  then have "main_loop_prelude env user_input a w =
      Inr (False, a\<lparr>current_model := HAIKU\<rparr>, w1\<lparr>stdout := stdout w1 @ [''Insufficient quota'']\<rparr>)"
    by (simp add: main_loop_prelude_def)
  then have "main_loop n env user_input a w =
      Some (Inr (a\<lparr>current_model := HAIKU\<rparr>, w1\<lparr>stdout := stdout w1 @ [''Insufficient quota'']\<rparr>))"
    by simp
  with c show ?thesis by simp
qed

text \<open>
  The root agent with a failing quota call.
\<close>

theorem quota_failure_returns_at_once_witness:
  "fst (call_api (env_of None quiet_response) (root_agent\<lparr>current_model := HAIKU\<rparr>) HAIKU ''quota'' w_none) = None \<and>
   main_loop 0 (env_of None quiet_response) ''fix bug'' root_agent w_none =
     Some (Inr (root_agent\<lparr>current_model := HAIKU\<rparr>,
                w_none\<lparr>stdout := [''Insufficient quota'']\<rparr>)) \<and>
   messages (agent_context (root_agent\<lparr>current_model := HAIKU\<rparr>)) = []"
proof -
  have h: "fst (call_api (env_of None quiet_response) (root_agent\<lparr>current_model := HAIKU\<rparr>) HAIKU ''quota'' w_none) = None"
    by (simp add: env_of_def)
  have w: "snd (call_api (env_of None quiet_response) (root_agent\<lparr>current_model := HAIKU\<rparr>) HAIKU ''quota'' w_none) = w_none"
    by (simp add: env_of_def)
  have s: "stdout w_none = []" by (simp add: w_none_def)
  have m: "messages (agent_context root_agent) = []"
    by (simp add: root_agent_def ClaudeCodeAgent_def initialize_context_def)
  from quota_failure_returns_at_once [OF h, of 0 "''fix bug''"] h w s m show ?thesis by simp
qed

lemma check_quota_agent:
  "check_quota env a w = (ok, a0, w0) \<Longrightarrow> a0 = a\<lparr>current_model := HAIKU\<rparr>"
  by (auto simp: check_quota_def Let_def split: prod.splits)

lemma check_new_topic_agent:
  "check_new_topic env user_input a w = Inr (is_new, a1, w1) \<Longrightarrow> a1 = a\<lparr>current_model := HAIKU\<rparr>"
  by (auto simp: check_new_topic_def Let_def split: prod.splits option.splits)

text \<open>
  In general: when a run gets past the quota check and the topic detection, the message
  list is the first reminder, the old messages, the second reminder and then the user
  message.
\<close>

lemma main_loop_prelude_messages:
  assumes "main_loop_prelude env user_input a w = Inr (True, a', w')"
  shows "messages (agent_context a') =
           system_message (Some (build_system_reminder_start env (a\<lparr>current_model := HAIKU\<rparr>)))
           # messages (agent_context a)
           @ [system_message (Some (build_system_reminder_end env (a\<lparr>current_model := HAIKU\<rparr>))),
              user_message user_input]"
proof -
  obtain ok a0 w0 where q: "check_quota env a w = (ok, a0, w0)"
    by (cases "check_quota env a w")
  then have a0: "a0 = a\<lparr>current_model := HAIKU\<rparr>" by (rule check_quota_agent)
  from assms q have ok: "ok" by (cases ok) (simp_all add: main_loop_prelude_def)
  from assms q ok obtain is_new a1 w1 where
    t: "check_new_topic env user_input a0 w0 = Inr (is_new, a1, w1)"
    by (auto simp: main_loop_prelude_def split: sum.splits)
  then have a1: "a1 = a0\<lparr>current_model := HAIKU\<rparr>" by (rule check_new_topic_agent)
  from assms q ok t have
    "a' = (append_message (user_message user_input) (inject_system_reminders env a1))
            \<lparr>current_model := SONNET\<rparr>"
    by (simp add: main_loop_prelude_def Let_def)
  with a0 a1 show ?thesis
    by (simp add: append_message_def inject_system_reminders_def Let_def)
qed

text \<open>
  C5. A run on the freshly constructed agent, up to line 130: both reminders are in
  the list before the user message is appended, so the todo reminder stands before the
  user message, not after it.
\<close>

theorem reminders_precede_user_message:
  "(case main_loop_prelude (env_of (Some ''continuation'') quiet_response) ''fix bug'' root_agent w_none of
      Inl e \<Rightarrow> []
    | Inr (proceed, a, w) \<Rightarrow> messages (agent_context a)) =
   [system_message (Some ''environment''), system_message (Some ''todo memory''),
    user_message ''fix bug'']"
  by (simp add: main_loop_prelude_def check_quota_def check_new_topic_def Let_def
      inject_system_reminders_def append_message_def env_of_def root_agent_def
      ClaudeCodeAgent_def initialize_context_def)

subsection \<open>Sub-agents\<close>

text \<open>The spawner adds one to the depth, whatever the depth is, and looks at no bound.\<close>

lemma make_sub_agent_depth:
  "sub_agent_depth (make_sub_agent ps a w) = sub_agent_depth a + 1 \<and>
   MAX_SUB_AGENT_DEPTH (make_sub_agent ps a w) = 1"
  by (simp add: make_sub_agent_def ClaudeCodeAgent_def Let_def)

text \<open>
  With a failing quota call a run returns at line 116, and so does the run of a
  sub-agent.
\<close>

lemma quota_fails_env_of_None:
  "main_loop n (env_of None response) user_input a w =
     Some (Inr (a\<lparr>current_model := HAIKU\<rparr>, w\<lparr>stdout := stdout w @ [''Insufficient quota'']\<rparr>))"
  by (simp add: main_loop_prelude_def check_quota_def env_of_def)

lemma spawn_env_of_None:
  "spawn_sub_agent_for_task n (env_of None response) ps a w =
     Some (Inr (final_result_of ps, w\<lparr>stdout := stdout w @ [''Insufficient quota'']\<rparr>))"
  by (simp add: quota_fails_env_of_None Let_def final_result_of_def del: main_loop.simps)
     (simp add: env_of_def)

text \<open>
  C1. The sub-agent of the root agent has depth 1, the maximum. A \<^verbatim>\<open>Task\<close> call
  dispatched by it is not rejected: \<^verbatim>\<open>_spawn_sub_agent_for_task\<close> builds an agent of
  depth 2 and runs it (here its quota check fails, so its run returns at once), and the
  dispatch appends an ordinary \<^verbatim>\<open>Task completed\<close> message.
\<close>

theorem spawn_beyond_max_depth:
  "sub_agent_depth depth_one_agent = 1 \<and>
   MAX_SUB_AGENT_DEPTH depth_one_agent = 1 \<and>
   sub_agent_depth (make_sub_agent find_todos_params depth_one_agent w_none) = 2 \<and>
   dispatch_tool_calls 0 (env_of None quiet_response) [task_call find_todos_params]
       depth_one_agent w_none =
     Some (Inr (append_message (task_completed_message (final_result_of find_todos_params))
                  depth_one_agent,
                w_none\<lparr>stdout := [''Insufficient quota'']\<rparr>))"
  by (simp add: task_call_def spawn_env_of_None del: spawn_sub_agent_for_task.simps)
     (simp add: depth_one_agent_def make_sub_agent_def ClaudeCodeAgent_def Let_def w_none_def
        root_agent_def)

text \<open>
  The context of the sub-agent built for a \<^verbatim>\<open>Task\<close> call: one user message with the
  task description, an empty todo list, and the four project fields of the parent.
\<close>

lemma make_sub_agent_context:
  "agent_context (make_sub_agent ps a w) =
     \<lparr>messages = [\<lparr>role = ''user'', content = Some (task_description_of ps),
                   tool_calls = None, tool_results = None\<rparr>],
      todo_list = [],
      current_directory = current_directory (agent_context a),
      claude_md_content = claude_md_content (agent_context a),
      recent_commits = recent_commits (agent_context a),
      platform_info = platform_info (agent_context a)\<rparr>"
  by (simp add: make_sub_agent_def Let_def user_message_def)

text \<open>
  A \<^verbatim>\<open>Task\<close> dispatch returns only if the quota check of the sub-agent fails: in every
  other case the sub-agent's run ends with an exception, which leaves the parent's
  \<^verbatim>\<open>main_loop\<close> as well, before line 152.
\<close>

lemma task_dispatch_needs_failed_quota:
  assumes "dispatch_tool_calls n env (\<lparr>tool = ToolStr ''Task'', params = ps\<rparr> # rest) a w =
             Some (Inr x)"
  shows "\<not> fst (check_quota env (make_sub_agent ps a w) w)"
proof -
  from assms obtain y where
    "main_loop n env (task_description_of ps) (make_sub_agent ps a w) w = Some (Inr y)"
    by (auto simp: Let_def split: option.splits sum.splits simp del: main_loop.simps)
  then show ?thesis by (rule main_loop_returns_only_on_quota_failure)
qed

text \<open>
  The phases of a run under the model that asks the root agent for a \<^verbatim>\<open>Task\<close>.
\<close>

lemma prelude_env_task_at_root:
  "main_loop_prelude env_task_at_root user_input a w =
     Inr (True,
          a\<lparr>current_model := SONNET,
            agent_context := (agent_context a)\<lparr>messages :=
              system_message (Some ''environment'') # messages (agent_context a)
              @ [system_message (Some ''todo memory''), user_message user_input]\<rparr>\<rparr>,
          w)"
  by (simp add: main_loop_prelude_def check_quota_def check_new_topic_def Let_def
      inject_system_reminders_def append_message_def env_task_at_root_def env_of_def)

lemma iteration_head_env_task_at_root:
  "iteration_head env_task_at_root a w_none =
     Inr (if sub_agent_depth a = 0 then task_response else quiet_response, a, w_none)"
  by (simp add: iteration_head_def compaction_check_def context_needs_compaction_def
      todo_sync_def load_todo_from_json_def env_task_at_root_def env_of_def)
     (simp add: w_none_def)

lemma sub_agent_run_raises:
  "sub_agent_depth a \<noteq> 0 \<Longrightarrow>
   main_loop (Suc n) env_task_at_root user_input a w_none = Some (Inl TypeError)"
  by (simp add: prelude_env_task_at_root iteration_head_env_task_at_root quiet_response_def
      should_exit_call_def)

text \<open>
  C3. The root agent dispatches a \<^verbatim>\<open>Task\<close>; the sub-agent passes its quota check and
  gets a response without tool calls. Its run ends at the call of line 170 with
  \<^verbatim>\<open>TypeError\<close>; the dispatch of the parent ends with that exception instead of
  returning, so the message of lines 152--156 is never appended; and the run of the
  parent ends with it too.
\<close>

theorem task_result_lost_when_child_runs:
  "main_loop (Suc 0) env_task_at_root ''find all TODOs''
       (make_sub_agent find_todos_params root_agent w_none) w_none = Some (Inl TypeError) \<and>
   dispatch_tool_calls (Suc 0) env_task_at_root [task_call find_todos_params] root_agent w_none =
     Some (Inl TypeError) \<and>
   main_loop (Suc (Suc 0)) env_task_at_root ''fix bug'' root_agent w_none = Some (Inl TypeError)"
proof -
  have d: "sub_agent_depth (make_sub_agent ps a w) \<noteq> 0" if "sub_agent_depth a = 0" for ps a w
    using that make_sub_agent_depth [of ps a w] by simp
  have r: "sub_agent_depth root_agent = 0"
    by (simp add: root_agent_def ClaudeCodeAgent_def)
  have c: "main_loop (Suc 0) env_task_at_root u (make_sub_agent ps a w) w_none =
             Some (Inl TypeError)" if "sub_agent_depth a = 0" for u ps a w
    using d [OF that] by (rule sub_agent_run_raises)
  have s: "dispatch_tool_calls (Suc 0) env_task_at_root [task_call ps] a w_none =
             Some (Inl TypeError)" if "sub_agent_depth a = 0" for ps a
    using c [OF that] by (simp add: task_call_def Let_def del: main_loop.simps)
  have m: "main_loop (Suc (Suc 0)) env_task_at_root ''fix bug'' root_agent w_none =
             Some (Inl TypeError)"
    using r by (simp add: prelude_env_task_at_root iteration_head_env_task_at_root
        task_response_def s del: dispatch_tool_calls.simps)
  from c [OF r] s [OF r] m show ?thesis by simp
qed

subsection \<open>Permission\<close>

text \<open>
  \<^verbatim>\<open>_get_user_permission\<close> never answers \<^verbatim>\<open>False\<close>, and a call that goes through the
  permission branch never gets past it: either the permission request raises (the tool
  is a string) or the construction of the message of line 165 does.
\<close>

lemma get_user_permission_never_denies: "get_user_permission a tc w \<noteq> Inr (False, w1)"
  by (simp add: get_user_permission_def split: ToolName.splits)

lemma execute_with_permission_raises:
  "execute_with_permission tc a w =
     Inl (case tool tc of ToolStr s \<Rightarrow> AttributeError | ToolEnum t \<Rightarrow> TypeError)"
  by (simp add: execute_with_permission_def get_user_permission_def execute_tool_def
      split: ToolName.splits)

end
